theory Spec2Isabelle
  imports Main "HOL-Library.Word"
begin

section \<open>Media copy: data model\<close>

text \<open>
  Shallow embedding of \<^verbatim>\<open>MediaCopyBaseState\<close> (media_copy.cpp): capability check,
  engine selection, task dispatch and the \<^verbatim>\<open>SurfaceCopy\<close> entry point.

  The headers that declare the types (media_copy.h, mos_defs.h, media_debug_dumper.h) are
  not part of the sources at hand, so every type below lists exactly the enumerators and
  fields the functions of media_copy.cpp name; the enumerators a function never names are
  collected under one \<open>OTHER\<close> constructor.
\<close>

text \<open>A resource handle (\<^verbatim>\<open>PMOS_RESOURCE\<close>): opaque, borrowed, never null here.\<close>

type_synonym PMOS_RESOURCE = nat

datatype MOS_STATUS =
    MOS_STATUS_SUCCESS
  | MOS_STATUS_INVALID_PARAMETER
  | MOS_STATUS_INVALID_HANDLE
  | MOS_STATUS_OTHER nat

datatype MOS_MEMCOMP_STATE = MOS_MMC_DISABLED | MOS_MMC_OTHER nat

datatype MOS_TILE_TYPE = MOS_TILE_LINEAR | MOS_TILE_OTHER nat

datatype MCPY_CPMODE = MCPY_CPMODE_CLEAR | MCPY_CPMODE_CP

datatype MCPY_ENGINE = MCPY_ENGINE_VEBOX | MCPY_ENGINE_BLT | MCPY_ENGINE_RENDER

text \<open>
  \<^verbatim>\<open>MCPY_METHOD\<close> is a C enumeration and \<^verbatim>\<open>m_MCPYForceMode\<close> an integer compared with
  its enumerators and with the literal 4, so both are numbers. The numeric values of the
  four enumerators are fixed by the absent header; they are fields of the platform record
  below.
\<close>

type_synonym MCPY_METHOD = nat

record MCPY_STATE_PARAMS =
  OsRes :: PMOS_RESOURCE
  CompressionMode :: MOS_MEMCOMP_STATE
  TileMode :: MOS_TILE_TYPE
  CpMode :: MCPY_CPMODE
  bAuxSuface :: bool

record MCPY_ENGINE_CAPS =
  engineVebox :: bool
  engineBlt :: bool
  engineRender :: bool
  reserved :: bool

subsection \<open>Observable effects\<close>

datatype DUMP_STAGE = mcpy_in | mcpy_out

datatype event =
    MosLockMutex
  | MosUnlockMutex
  | DecompResource PMOS_RESOURCE
  | CallVeboxCopy PMOS_RESOURCE PMOS_RESOURCE
  | CallBltCopy PMOS_RESOURCE PMOS_RESOURCE
  | CallRenderCopy PMOS_RESOURCE PMOS_RESOURCE
  | DumpSurfaceToFile PMOS_RESOURCE string "32 word"
  | ReportUserSetting string

subsection \<open>External collaborators and build constants\<close>

text \<open>
  Everything \<^verbatim>\<open>MediaCopyBaseState\<close> calls but does not implement: the pure-virtual
  members a platform class supplies, the OS interface entry points, the dump-location
  lookup, the enumerator values of \<^verbatim>\<open>MCPY_METHOD\<close>, and whether the build defines
  \<^verbatim>\<open>_DEBUG || _RELEASE_INTERNAL\<close>. \<open>FeatureSupport\<close> receives the capability set by
  reference and returns a status; the descriptors are inputs to it.
\<close>

record MCPY_PLATFORM =
  MCPY_METHOD_DEFAULT :: MCPY_METHOD
  MCPY_METHOD_POWERSAVING :: MCPY_METHOD
  MCPY_METHOD_BALANCE :: MCPY_METHOD
  MCPY_METHOD_PERFORMANCE :: MCPY_METHOD
  DEBUG_OR_RELEASE_INTERNAL :: bool
  FeatureSupport :: "PMOS_RESOURCE \<Rightarrow> PMOS_RESOURCE \<Rightarrow> MCPY_STATE_PARAMS \<Rightarrow> MCPY_STATE_PARAMS
                      \<Rightarrow> MCPY_ENGINE_CAPS \<Rightarrow> MOS_STATUS \<times> MCPY_ENGINE_CAPS"
  IsVeboxCopySupported :: "PMOS_RESOURCE \<Rightarrow> PMOS_RESOURCE \<Rightarrow> bool"
  RenderFormatSupportCheck :: "PMOS_RESOURCE \<Rightarrow> PMOS_RESOURCE \<Rightarrow> bool"
  MediaVeboxCopy :: "PMOS_RESOURCE \<Rightarrow> PMOS_RESOURCE \<Rightarrow> MOS_STATUS"
  MediaBltCopy :: "PMOS_RESOURCE \<Rightarrow> PMOS_RESOURCE \<Rightarrow> MOS_STATUS"
  MediaRenderCopy :: "PMOS_RESOURCE \<Rightarrow> PMOS_RESOURCE \<Rightarrow> MOS_STATUS"
  pfnDecompResource :: "PMOS_RESOURCE \<Rightarrow> MOS_STATUS"
  pfnGetResourceInfo :: "PMOS_RESOURCE \<Rightarrow> MOS_STATUS \<times> MOS_TILE_TYPE"
  pfnGetMemoryCompressionMode :: "PMOS_RESOURCE \<Rightarrow> MOS_STATUS \<times> MOS_MEMCOMP_STATE"
  GetSetCpSurfTag :: "PMOS_RESOURCE \<Rightarrow> bool"
  GetSurfaceDumpLocation :: "DUMP_STAGE \<Rightarrow> string"

subsection \<open>The state of one orchestrator instance\<close>

record CommonSurfaceDumper =
  m_frameNum :: "32 word"

record MediaCopyBaseState =
  m_MCPYForceMode :: nat
  m_allowCPBltCopy :: bool
  m_surfaceDumper :: "CommonSurfaceDumper option"
  events :: "event list"

definition log_event :: "event \<Rightarrow> MediaCopyBaseState \<Rightarrow> MediaCopyBaseState" where
  "log_event e st = st\<lparr>events := events st @ [e]\<rparr>"

section \<open>CapabilityCheck\<close>

text \<open>
  \<^verbatim>\<open>MCPY_CHK_STATUS_RETURN(x)\<close> returns \<open>x\<close> from the enclosing function when \<open>x\<close> is not
  \<open>MOS_STATUS_SUCCESS\<close>. The capability set is passed by reference, so the model returns
  it next to the status on every path.
\<close>

definition CapabilityCheck ::
  "MCPY_PLATFORM \<Rightarrow> MediaCopyBaseState \<Rightarrow> MCPY_STATE_PARAMS \<Rightarrow> MCPY_STATE_PARAMS
     \<Rightarrow> MCPY_ENGINE_CAPS \<Rightarrow> MOS_STATUS \<times> MCPY_ENGINE_CAPS" where
  "CapabilityCheck pf st mcpySrc mcpyDst caps0 =
     (case FeatureSupport pf (OsRes mcpySrc) (OsRes mcpyDst) mcpySrc mcpyDst caps0 of
        (eStatus, caps1) \<Rightarrow>
          if eStatus \<noteq> MOS_STATUS_SUCCESS then (eStatus, caps1)
          else if CpMode mcpySrc = MCPY_CPMODE_CP \<and> CpMode mcpyDst = MCPY_CPMODE_CLEAR
                  \<and> \<not> m_allowCPBltCopy st
          then (MOS_STATUS_INVALID_PARAMETER, caps1)
          else
            let caps2 = (if \<not> IsVeboxCopySupported pf (OsRes mcpySrc) (OsRes mcpyDst)
                            \<or> bAuxSuface mcpySrc
                         then caps1\<lparr>engineVebox := False\<rparr> else caps1);
                caps3 = (if \<not> RenderFormatSupportCheck pf (OsRes mcpySrc) (OsRes mcpyDst)
                            \<or> bAuxSuface mcpySrc
                         then caps2\<lparr>engineRender := False\<rparr> else caps2)
            in if \<not> engineVebox caps3 \<and> \<not> engineBlt caps3 \<and> \<not> engineRender caps3
               then (MOS_STATUS_INVALID_PARAMETER, caps3)
               else (MOS_STATUS_SUCCESS, caps3))"

section \<open>PreCheckCpCopy\<close>

definition PreCheckCpCopy ::
  "MCPY_STATE_PARAMS \<Rightarrow> MCPY_STATE_PARAMS \<Rightarrow> MCPY_METHOD \<Rightarrow> MOS_STATUS" where
  "PreCheckCpCopy src dest preferMethod = MOS_STATUS_SUCCESS"

section \<open>CopyEnigneSelect\<close>

text \<open>
  The engine is an in/out reference: the \<^verbatim>\<open>default\<close> branch of the switch leaves it as
  the caller passed it. The force-mode chain exists only in debug and release-internal
  builds.
\<close>

definition CopyEnigneSelect ::
  "MCPY_PLATFORM \<Rightarrow> MediaCopyBaseState \<Rightarrow> MCPY_METHOD \<Rightarrow> MCPY_ENGINE \<Rightarrow> MCPY_ENGINE_CAPS
     \<Rightarrow> MOS_STATUS \<times> MCPY_ENGINE" where
  "CopyEnigneSelect pf st preferMethod mcpyEngine0 caps =
     (let mcpyEngine1 =
            (if preferMethod = MCPY_METHOD_PERFORMANCE pf \<or> preferMethod = MCPY_METHOD_DEFAULT pf
             then (if engineRender caps then MCPY_ENGINE_RENDER
                   else if engineBlt caps then MCPY_ENGINE_BLT else MCPY_ENGINE_VEBOX)
             else if preferMethod = MCPY_METHOD_BALANCE pf
             then (if engineVebox caps then MCPY_ENGINE_VEBOX
                   else if engineBlt caps then MCPY_ENGINE_BLT else MCPY_ENGINE_RENDER)
             else if preferMethod = MCPY_METHOD_POWERSAVING pf
             then (if engineBlt caps then MCPY_ENGINE_BLT
                   else if engineVebox caps then MCPY_ENGINE_VEBOX else MCPY_ENGINE_RENDER)
             else mcpyEngine0)
      in if DEBUG_OR_RELEASE_INTERNAL pf then
           (if MCPY_METHOD_PERFORMANCE pf = m_MCPYForceMode st
            then (MOS_STATUS_SUCCESS, MCPY_ENGINE_RENDER)
            else if MCPY_METHOD_POWERSAVING pf = m_MCPYForceMode st
            then (MOS_STATUS_SUCCESS, MCPY_ENGINE_BLT)
            else if MCPY_METHOD_BALANCE pf = m_MCPYForceMode st
            then (MOS_STATUS_SUCCESS, MCPY_ENGINE_VEBOX)
            else if 4 = m_MCPYForceMode st
            then (MOS_STATUS_INVALID_PARAMETER, mcpyEngine1)
            else (MOS_STATUS_SUCCESS, mcpyEngine1))
         else (MOS_STATUS_SUCCESS, mcpyEngine1))"

section \<open>TaskDispatch\<close>

text \<open>
  A dump location is rejected when its first character is NUL (the buffer was zeroed, so
  this is the empty string too) or a blank.
\<close>

definition invalid_dump_location :: "string \<Rightarrow> bool" where
  "invalid_dump_location loc =
     (case loc of [] \<Rightarrow> True | c # cs \<Rightarrow> c = CHR 0x00 \<or> c = CHR '' '')"

text \<open>The debug-only block before the lock is taken (source lines 267 to 305).\<close>

definition pre_copy_dump ::
  "MCPY_PLATFORM \<Rightarrow> MediaCopyBaseState \<Rightarrow> MCPY_STATE_PARAMS \<Rightarrow> MediaCopyBaseState" where
  "pre_copy_dump pf st mcpySrc =
     (if DEBUG_OR_RELEASE_INTERNAL pf then
        (case m_surfaceDumper st of
           None \<Rightarrow> st
         | Some dumper \<Rightarrow>
             let dumpLocation_in = GetSurfaceDumpLocation pf mcpy_in
             in if invalid_dump_location dumpLocation_in then st
                else log_event (DumpSurfaceToFile (OsRes mcpySrc) dumpLocation_in
                                  (m_frameNum dumper)) st)
      else st)"

text \<open>
  The debug-only block after the lock is released (source lines 334 to 359). The report
  string tests the engine against zero, which is \<open>MCPY_ENGINE_VEBOX\<close>, the first
  enumerator.
\<close>

definition post_copy_report ::
  "MCPY_PLATFORM \<Rightarrow> MediaCopyBaseState \<Rightarrow> MCPY_STATE_PARAMS \<Rightarrow> MCPY_ENGINE
     \<Rightarrow> MediaCopyBaseState" where
  "post_copy_report pf st mcpyDst mcpyEngine =
     (if DEBUG_OR_RELEASE_INTERNAL pf then
        (let copyEngine = (if mcpyEngine \<noteq> MCPY_ENGINE_VEBOX
                           then (if mcpyEngine = MCPY_ENGINE_BLT then ''BLT'' else ''Render'')
                           else ''VeBox'');
             st1 = log_event (ReportUserSetting copyEngine) st
         in case m_surfaceDumper st1 of
              None \<Rightarrow> st1
            | Some dumper \<Rightarrow>
                let dumpLocation_out = GetSurfaceDumpLocation pf mcpy_out;
                    st2 = (if invalid_dump_location dumpLocation_out then st1
                           else log_event (DumpSurfaceToFile (OsRes mcpyDst) dumpLocation_out
                                             (m_frameNum dumper)) st1)
                in st2\<lparr>m_surfaceDumper := Some (dumper\<lparr>m_frameNum := m_frameNum dumper + 1\<rparr>)\<rparr>)
      else st)"

text \<open>
  Everything after the switch: unlock, report and dump, return the executor's status.
  The mutex exists (\<^verbatim>\<open>Initialize\<close> created it) and one caller runs at a time, so
  locking and unlocking are events of the log and never block.
\<close>

definition dispatch_epilogue ::
  "MCPY_PLATFORM \<Rightarrow> MediaCopyBaseState \<Rightarrow> MOS_STATUS \<Rightarrow> MCPY_STATE_PARAMS \<Rightarrow> MCPY_ENGINE
     \<Rightarrow> MOS_STATUS \<times> MediaCopyBaseState" where
  "dispatch_epilogue pf st eStatus mcpyDst mcpyEngine =
     (eStatus, post_copy_report pf (log_event MosUnlockMutex st) mcpyDst mcpyEngine)"

definition TaskDispatch ::
  "MCPY_PLATFORM \<Rightarrow> MediaCopyBaseState \<Rightarrow> MCPY_STATE_PARAMS \<Rightarrow> MCPY_STATE_PARAMS \<Rightarrow> MCPY_ENGINE
     \<Rightarrow> MOS_STATUS \<times> MediaCopyBaseState" where
  "TaskDispatch pf st0 mcpySrc mcpyDst mcpyEngine =
     (let st1 = pre_copy_dump pf st0 mcpySrc;
          st2 = log_event MosLockMutex st1
      in case mcpyEngine of
           MCPY_ENGINE_VEBOX \<Rightarrow>
             dispatch_epilogue pf
               (log_event (CallVeboxCopy (OsRes mcpySrc) (OsRes mcpyDst)) st2)
               (MediaVeboxCopy pf (OsRes mcpySrc) (OsRes mcpyDst)) mcpyDst mcpyEngine
         | MCPY_ENGINE_BLT \<Rightarrow>
             if TileMode mcpySrc \<noteq> MOS_TILE_LINEAR \<and> CompressionMode mcpySrc \<noteq> MOS_MMC_DISABLED
             then
               (let st3 = log_event (DecompResource (OsRes mcpySrc)) st2;
                    eStatus = pfnDecompResource pf (OsRes mcpySrc)
                in if MOS_STATUS_SUCCESS \<noteq> eStatus
                   then (eStatus, log_event MosUnlockMutex st3)
                   else dispatch_epilogue pf
                          (log_event (CallBltCopy (OsRes mcpySrc) (OsRes mcpyDst)) st3)
                          (MediaBltCopy pf (OsRes mcpySrc) (OsRes mcpyDst)) mcpyDst mcpyEngine)
             else dispatch_epilogue pf
                    (log_event (CallBltCopy (OsRes mcpySrc) (OsRes mcpyDst)) st2)
                    (MediaBltCopy pf (OsRes mcpySrc) (OsRes mcpyDst)) mcpyDst mcpyEngine
         | MCPY_ENGINE_RENDER \<Rightarrow>
             dispatch_epilogue pf
               (log_event (CallRenderCopy (OsRes mcpySrc) (OsRes mcpyDst)) st2)
               (MediaRenderCopy pf (OsRes mcpySrc) (OsRes mcpyDst)) mcpyDst mcpyEngine)"

section \<open>SurfaceCopy and AuxCopy\<close>

text \<open>
  The descriptor \<^verbatim>\<open>SurfaceCopy\<close> builds for a resource once both queries succeeded; the
  auxiliary flag keeps its initial value \<open>false\<close>.
\<close>

definition state_params :: "MCPY_PLATFORM \<Rightarrow> PMOS_RESOURCE \<Rightarrow> MCPY_STATE_PARAMS" where
  "state_params pf res =
     \<lparr>OsRes = res,
      CompressionMode = snd (pfnGetMemoryCompressionMode pf res),
      TileMode = snd (pfnGetResourceInfo pf res),
      CpMode = (if GetSetCpSurfTag pf res then MCPY_CPMODE_CP else MCPY_CPMODE_CLEAR),
      bAuxSuface = False\<rparr>"

text \<open>
  The status of \<^verbatim>\<open>CopyEnigneSelect\<close> is not looked at (source line 255): only the
  engine it wrote is used.
\<close>

definition SurfaceCopy ::
  "MCPY_PLATFORM \<Rightarrow> MediaCopyBaseState \<Rightarrow> PMOS_RESOURCE \<Rightarrow> PMOS_RESOURCE \<Rightarrow> MCPY_METHOD
     \<Rightarrow> MOS_STATUS \<times> MediaCopyBaseState" where
  "SurfaceCopy pf st src dst preferMethod =
     (if fst (pfnGetResourceInfo pf src) \<noteq> MOS_STATUS_SUCCESS
      then (fst (pfnGetResourceInfo pf src), st)
      else if fst (pfnGetMemoryCompressionMode pf src) \<noteq> MOS_STATUS_SUCCESS
      then (fst (pfnGetMemoryCompressionMode pf src), st)
      else if fst (pfnGetResourceInfo pf dst) \<noteq> MOS_STATUS_SUCCESS
      then (fst (pfnGetResourceInfo pf dst), st)
      else if fst (pfnGetMemoryCompressionMode pf dst) \<noteq> MOS_STATUS_SUCCESS
      then (fst (pfnGetMemoryCompressionMode pf dst), st)
      else
        let mcpySrc = state_params pf src;
            mcpyDst = state_params pf dst;
            mcpyEngine0 = MCPY_ENGINE_BLT;
            mcpyEngineCaps0 = \<lparr>engineVebox = True, engineBlt = True, engineRender = True,
                                reserved = True\<rparr>
        in if PreCheckCpCopy mcpySrc mcpyDst preferMethod \<noteq> MOS_STATUS_SUCCESS
           then (PreCheckCpCopy mcpySrc mcpyDst preferMethod, st)
           else
             case CapabilityCheck pf st mcpySrc mcpyDst mcpyEngineCaps0 of
               (capStatus, mcpyEngineCaps) \<Rightarrow>
                 if capStatus \<noteq> MOS_STATUS_SUCCESS then (capStatus, st)
                 else
                   let mcpyEngine =
                         snd (CopyEnigneSelect pf st preferMethod mcpyEngine0 mcpyEngineCaps)
                   in TaskDispatch pf st mcpySrc mcpyDst mcpyEngine)"

definition AuxCopy ::
  "MediaCopyBaseState \<Rightarrow> PMOS_RESOURCE \<Rightarrow> PMOS_RESOURCE \<Rightarrow> MOS_STATUS \<times> MediaCopyBaseState" where
  "AuxCopy st src dst = (MOS_STATUS_INVALID_HANDLE, st)"

section \<open>Vocabulary of the properties\<close>

text \<open>
  A force override is active when the build has the force-mode chain and the cached
  setting hits one of its four branches.
\<close>

definition force_override_active :: "MCPY_PLATFORM \<Rightarrow> MediaCopyBaseState \<Rightarrow> bool" where
  "force_override_active pf st =
     (DEBUG_OR_RELEASE_INTERNAL pf \<and>
      (m_MCPYForceMode st = MCPY_METHOD_PERFORMANCE pf \<or>
       m_MCPYForceMode st = MCPY_METHOD_POWERSAVING pf \<or>
       m_MCPYForceMode st = MCPY_METHOD_BALANCE pf \<or>
       m_MCPYForceMode st = 4))"

text \<open>
  The four enumerators are case labels of one switch, so a platform record describes a
  program that compiles only if they are pairwise different.
\<close>

definition method_values_distinct :: "MCPY_PLATFORM \<Rightarrow> bool" where
  "method_values_distinct pf =
     distinct [MCPY_METHOD_DEFAULT pf, MCPY_METHOD_POWERSAVING pf,
               MCPY_METHOD_BALANCE pf, MCPY_METHOD_PERFORMANCE pf]"

definition defined_method :: "MCPY_PLATFORM \<Rightarrow> MCPY_METHOD \<Rightarrow> bool" where
  "defined_method pf m =
     (m = MCPY_METHOD_DEFAULT pf \<or> m = MCPY_METHOD_PERFORMANCE pf \<or>
      m = MCPY_METHOD_BALANCE pf \<or> m = MCPY_METHOD_POWERSAVING pf)"

definition eligible :: "MCPY_ENGINE_CAPS \<Rightarrow> MCPY_ENGINE \<Rightarrow> bool" where
  "eligible caps e =
     (case e of MCPY_ENGINE_VEBOX \<Rightarrow> engineVebox caps
      | MCPY_ENGINE_BLT \<Rightarrow> engineBlt caps
      | MCPY_ENGINE_RENDER \<Rightarrow> engineRender caps)"

text \<open>
  The priority table as the specification words it (section 4.2), to be compared with
  the nested conditionals of \<open>CopyEnigneSelect\<close>.
\<close>

definition priority_order :: "MCPY_PLATFORM \<Rightarrow> MCPY_METHOD \<Rightarrow> MCPY_ENGINE list" where
  "priority_order pf m =
     (if m = MCPY_METHOD_DEFAULT pf \<or> m = MCPY_METHOD_PERFORMANCE pf
      then [MCPY_ENGINE_RENDER, MCPY_ENGINE_BLT, MCPY_ENGINE_VEBOX]
      else if m = MCPY_METHOD_BALANCE pf
      then [MCPY_ENGINE_VEBOX, MCPY_ENGINE_BLT, MCPY_ENGINE_RENDER]
      else if m = MCPY_METHOD_POWERSAVING pf
      then [MCPY_ENGINE_BLT, MCPY_ENGINE_VEBOX, MCPY_ENGINE_RENDER]
      else [])"

text \<open>The events a call appended to the log.\<close>

definition new_events :: "MediaCopyBaseState \<Rightarrow> MediaCopyBaseState \<Rightarrow> event list" where
  "new_events st st' = drop (length (events st)) (events st')"

text \<open>
  Replaying the mutex events of a log from a given held/free state: \<open>None\<close> when the log
  locks a held mutex or unlocks a free one, otherwise the final state.
\<close>

fun mutex_run :: "bool \<Rightarrow> event list \<Rightarrow> bool option" where
  "mutex_run held [] = Some held"
| "mutex_run held (MosLockMutex # es) = (if held then None else mutex_run True es)"
| "mutex_run held (MosUnlockMutex # es) = (if held then mutex_run False es else None)"
| "mutex_run held (e # es) = mutex_run held es"

fun is_decomp :: "event \<Rightarrow> bool" where
  "is_decomp (DecompResource r) = True"
| "is_decomp e = False"

fun is_executor :: "event \<Rightarrow> bool" where
  "is_executor (CallVeboxCopy s d) = True"
| "is_executor (CallBltCopy s d) = True"
| "is_executor (CallRenderCopy s d) = True"
| "is_executor e = False"

fun is_debug_event :: "event \<Rightarrow> bool" where
  "is_debug_event (DumpSurfaceToFile r loc n) = True"
| "is_debug_event (ReportUserSetting s) = True"
| "is_debug_event e = False"

definition executor_call :: "MCPY_ENGINE \<Rightarrow> PMOS_RESOURCE \<Rightarrow> PMOS_RESOURCE \<Rightarrow> event" where
  "executor_call e s d =
     (case e of MCPY_ENGINE_VEBOX \<Rightarrow> CallVeboxCopy s d
      | MCPY_ENGINE_BLT \<Rightarrow> CallBltCopy s d
      | MCPY_ENGINE_RENDER \<Rightarrow> CallRenderCopy s d)"

definition needs_decomp :: "MCPY_STATE_PARAMS \<Rightarrow> MCPY_ENGINE \<Rightarrow> bool" where
  "needs_decomp mcpySrc e =
     (e = MCPY_ENGINE_BLT \<and> TileMode mcpySrc \<noteq> MOS_TILE_LINEAR
      \<and> CompressionMode mcpySrc \<noteq> MOS_MMC_DISABLED)"

definition decomp_fails :: "MCPY_PLATFORM \<Rightarrow> MCPY_STATE_PARAMS \<Rightarrow> MCPY_ENGINE \<Rightarrow> bool" where
  "decomp_fails pf mcpySrc e =
     (needs_decomp mcpySrc e \<and> pfnDecompResource pf (OsRes mcpySrc) \<noteq> MOS_STATUS_SUCCESS)"

text \<open>The calls made while the mutex is held, in order.\<close>

definition locked_calls ::
  "MCPY_PLATFORM \<Rightarrow> MCPY_STATE_PARAMS \<Rightarrow> MCPY_STATE_PARAMS \<Rightarrow> MCPY_ENGINE \<Rightarrow> event list" where
  "locked_calls pf mcpySrc mcpyDst e =
     (if needs_decomp mcpySrc e
      then (if pfnDecompResource pf (OsRes mcpySrc) = MOS_STATUS_SUCCESS
            then [DecompResource (OsRes mcpySrc), CallBltCopy (OsRes mcpySrc) (OsRes mcpyDst)]
            else [DecompResource (OsRes mcpySrc)])
      else [executor_call e (OsRes mcpySrc) (OsRes mcpyDst)])"

text \<open>The status of the executor the switch calls for an engine.\<close>

definition executor_status ::
  "MCPY_PLATFORM \<Rightarrow> MCPY_STATE_PARAMS \<Rightarrow> MCPY_STATE_PARAMS \<Rightarrow> MCPY_ENGINE \<Rightarrow> MOS_STATUS" where
  "executor_status pf mcpySrc mcpyDst e =
     (case e of
        MCPY_ENGINE_VEBOX \<Rightarrow> MediaVeboxCopy pf (OsRes mcpySrc) (OsRes mcpyDst)
      | MCPY_ENGINE_BLT \<Rightarrow> MediaBltCopy pf (OsRes mcpySrc) (OsRes mcpyDst)
      | MCPY_ENGINE_RENDER \<Rightarrow> MediaRenderCopy pf (OsRes mcpySrc) (OsRes mcpyDst))"

definition protection_downgrade ::
  "MediaCopyBaseState \<Rightarrow> MCPY_STATE_PARAMS \<Rightarrow> MCPY_STATE_PARAMS \<Rightarrow> bool" where
  "protection_downgrade st mcpySrc mcpyDst =
     (CpMode mcpySrc = MCPY_CPMODE_CP \<and> CpMode mcpyDst = MCPY_CPMODE_CLEAR
      \<and> \<not> m_allowCPBltCopy st)"

definition queries_succeed :: "MCPY_PLATFORM \<Rightarrow> PMOS_RESOURCE \<Rightarrow> PMOS_RESOURCE \<Rightarrow> bool" where
  "queries_succeed pf src dst =
     (fst (pfnGetResourceInfo pf src) = MOS_STATUS_SUCCESS
      \<and> fst (pfnGetMemoryCompressionMode pf src) = MOS_STATUS_SUCCESS
      \<and> fst (pfnGetResourceInfo pf dst) = MOS_STATUS_SUCCESS
      \<and> fst (pfnGetMemoryCompressionMode pf dst) = MOS_STATUS_SUCCESS)"

definition initial_caps :: MCPY_ENGINE_CAPS where
  "initial_caps = \<lparr>engineVebox = True, engineBlt = True, engineRender = True, reserved = True\<rparr>"

subsection \<open>A concrete platform and instance\<close>

text \<open>
  A platform on which every collaborator succeeds: all engines enabled, linear
  uncompressed clear surfaces, a valid dump location, a debug build.
\<close>

definition demo_platform :: MCPY_PLATFORM where
  "demo_platform =
     \<lparr>MCPY_METHOD_DEFAULT = 0, MCPY_METHOD_POWERSAVING = 1, MCPY_METHOD_BALANCE = 2,
      MCPY_METHOD_PERFORMANCE = 3, DEBUG_OR_RELEASE_INTERNAL = True,
      FeatureSupport = (\<lambda>src dst mcpySrc mcpyDst caps. (MOS_STATUS_SUCCESS, caps)),
      IsVeboxCopySupported = (\<lambda>src dst. True),
      RenderFormatSupportCheck = (\<lambda>src dst. True),
      MediaVeboxCopy = (\<lambda>src dst. MOS_STATUS_SUCCESS),
      MediaBltCopy = (\<lambda>src dst. MOS_STATUS_SUCCESS),
      MediaRenderCopy = (\<lambda>src dst. MOS_STATUS_SUCCESS),
      pfnDecompResource = (\<lambda>res. MOS_STATUS_SUCCESS),
      pfnGetResourceInfo = (\<lambda>res. (MOS_STATUS_SUCCESS, MOS_TILE_LINEAR)),
      pfnGetMemoryCompressionMode = (\<lambda>res. (MOS_STATUS_SUCCESS, MOS_MMC_DISABLED)),
      GetSetCpSurfTag = (\<lambda>res. False),
      GetSurfaceDumpLocation = (\<lambda>stage. ''/tmp/mcpy'')\<rparr>"

definition demo_state :: MediaCopyBaseState where
  "demo_state =
     \<lparr>m_MCPYForceMode = 0, m_allowCPBltCopy = False,
      m_surfaceDumper = Some \<lparr>m_frameNum = 7\<rparr>, events = []\<rparr>"

definition demo_params :: "PMOS_RESOURCE \<Rightarrow> MCPY_STATE_PARAMS" where
  "demo_params res =
     \<lparr>OsRes = res, CompressionMode = MOS_MMC_DISABLED, TileMode = MOS_TILE_LINEAR,
      CpMode = MCPY_CPMODE_CLEAR, bAuxSuface = False\<rparr>"

definition bypass_state :: MediaCopyBaseState where
  "bypass_state = demo_state\<lparr>m_MCPYForceMode := 4\<rparr>"

definition failing_vebox_platform :: MCPY_PLATFORM where
  "failing_vebox_platform =
     demo_platform\<lparr>MediaVeboxCopy := (\<lambda>src dst. MOS_STATUS_OTHER 1)\<rparr>"

definition failing_decomp_platform :: MCPY_PLATFORM where
  "failing_decomp_platform =
     demo_platform\<lparr>pfnDecompResource := (\<lambda>res. MOS_STATUS_OTHER 2)\<rparr>"

definition no_engine_platform :: MCPY_PLATFORM where
  "no_engine_platform =
     demo_platform\<lparr>FeatureSupport := (\<lambda>src dst mcpySrc mcpyDst caps.
        (MOS_STATUS_SUCCESS,
         caps\<lparr>engineVebox := False, engineBlt := False, engineRender := False\<rparr>))\<rparr>"

definition tiled_params :: "PMOS_RESOURCE \<Rightarrow> MCPY_STATE_PARAMS" where
  "tiled_params res =
     \<lparr>OsRes = res, CompressionMode = MOS_MMC_OTHER 1, TileMode = MOS_TILE_OTHER 1,
      CpMode = MCPY_CPMODE_CLEAR, bAuxSuface = False\<rparr>"

definition protected_params :: "PMOS_RESOURCE \<Rightarrow> MCPY_STATE_PARAMS" where
  "protected_params res = (demo_params res)\<lparr>CpMode := MCPY_CPMODE_CP\<rparr>"

definition aux_params :: "PMOS_RESOURCE \<Rightarrow> MCPY_STATE_PARAMS" where
  "aux_params res = (demo_params res)\<lparr>bAuxSuface := True\<rparr>"

text \<open>A platform whose predicate switches Blt off and then fails with a status of its own.\<close>

definition failing_predicate_platform :: MCPY_PLATFORM where
  "failing_predicate_platform =
     demo_platform\<lparr>FeatureSupport := (\<lambda>src dst mcpySrc mcpyDst caps.
        (MOS_STATUS_OTHER 3, caps\<lparr>engineBlt := False\<rparr>))\<rparr>"

definition aux_protected_params :: "PMOS_RESOURCE \<Rightarrow> MCPY_STATE_PARAMS" where
  "aux_protected_params res =
     (demo_params res)\<lparr>CpMode := MCPY_CPMODE_CP, bAuxSuface := True\<rparr>"

definition no_blt_caps :: MCPY_ENGINE_CAPS where
  "no_blt_caps = initial_caps\<lparr>engineBlt := False\<rparr>"

lemmas demo_defs =
  demo_platform_def demo_state_def demo_params_def tiled_params_def protected_params_def
  aux_params_def no_blt_caps_def initial_caps_def bypass_state_def failing_vebox_platform_def
  failing_decomp_platform_def no_engine_platform_def failing_predicate_platform_def
  aux_protected_params_def

lemmas run_defs =
  TaskDispatch_def dispatch_epilogue_def post_copy_report_def pre_copy_dump_def
  log_event_def invalid_dump_location_def Let_def new_events_def

section \<open>Engine selection\<close>

lemma select_no_override:
  assumes "\<not> force_override_active pf st"
  shows "CopyEnigneSelect pf st m e0 caps =
     (MOS_STATUS_SUCCESS,
      if m = MCPY_METHOD_PERFORMANCE pf \<or> m = MCPY_METHOD_DEFAULT pf
      then (if engineRender caps then MCPY_ENGINE_RENDER
            else if engineBlt caps then MCPY_ENGINE_BLT else MCPY_ENGINE_VEBOX)
      else if m = MCPY_METHOD_BALANCE pf
      then (if engineVebox caps then MCPY_ENGINE_VEBOX
            else if engineBlt caps then MCPY_ENGINE_BLT else MCPY_ENGINE_RENDER)
      else if m = MCPY_METHOD_POWERSAVING pf
      then (if engineBlt caps then MCPY_ENGINE_BLT
            else if engineVebox caps then MCPY_ENGINE_VEBOX else MCPY_ENGINE_RENDER)
      else e0)"
proof (cases "DEBUG_OR_RELEASE_INTERNAL pf")
  case True
  with assms have "MCPY_METHOD_PERFORMANCE pf \<noteq> m_MCPYForceMode st"
    "MCPY_METHOD_POWERSAVING pf \<noteq> m_MCPYForceMode st"
    "MCPY_METHOD_BALANCE pf \<noteq> m_MCPYForceMode st"
    "4 \<noteq> m_MCPYForceMode st"
    by (auto simp: force_override_active_def)
  with True show ?thesis by (simp add: CopyEnigneSelect_def Let_def)
next
  case False
  then show ?thesis by (simp add: CopyEnigneSelect_def Let_def)
qed

lemma demo_no_override: "\<not> force_override_active demo_platform demo_state"
  by (simp add: force_override_active_def demo_platform_def demo_state_def)

lemma demo_distinct: "method_values_distinct demo_platform"
  by (simp add: method_values_distinct_def demo_platform_def)

text \<open>
  C2. With at least one eligible engine and no force override, \<open>CopyEnigneSelect\<close>
  succeeds for each of the four defined preferences and returns the first eligible engine
  of that preference's priority order (Render, Blt, Vebox for Default and Performance;
  Vebox, Blt, Render for Balance; Blt, Vebox, Render for PowerSaving); the engine returned
  is eligible.
\<close>

theorem CopyEnigneSelect_first_eligible:
  assumes dist: "method_values_distinct pf" and nov: "\<not> force_override_active pf st"
    and dm: "defined_method pf m"
    and some: "engineVebox caps \<or> engineBlt caps \<or> engineRender caps"
  shows "fst (CopyEnigneSelect pf st m e0 caps) = MOS_STATUS_SUCCESS
         \<and> find (eligible caps) (priority_order pf m)
             = Some (snd (CopyEnigneSelect pf st m e0 caps))
         \<and> eligible caps (snd (CopyEnigneSelect pf st m e0 caps))"
proof -
  from dist have d: "MCPY_METHOD_DEFAULT pf \<noteq> MCPY_METHOD_BALANCE pf"
    "MCPY_METHOD_PERFORMANCE pf \<noteq> MCPY_METHOD_BALANCE pf"
    "MCPY_METHOD_DEFAULT pf \<noteq> MCPY_METHOD_POWERSAVING pf"
    "MCPY_METHOD_PERFORMANCE pf \<noteq> MCPY_METHOD_POWERSAVING pf"
    "MCPY_METHOD_BALANCE pf \<noteq> MCPY_METHOD_POWERSAVING pf"
    by (auto simp: method_values_distinct_def)
  from dm consider
      (perf) "m = MCPY_METHOD_DEFAULT pf \<or> m = MCPY_METHOD_PERFORMANCE pf"
    | (bal) "m = MCPY_METHOD_BALANCE pf"
    | (pow) "m = MCPY_METHOD_POWERSAVING pf"
    by (auto simp: defined_method_def)
  then show ?thesis
  proof cases
    case perf
    then have "m = MCPY_METHOD_PERFORMANCE pf \<or> m = MCPY_METHOD_DEFAULT pf" by blast
    with perf some show ?thesis
      by (auto simp: select_no_override [OF nov] priority_order_def eligible_def)
  next
    case bal
    with d some show ?thesis
      by (auto simp: select_no_override [OF nov] priority_order_def eligible_def)
  next
    case pow
    with d some show ?thesis
      by (auto simp: select_no_override [OF nov] priority_order_def eligible_def)
  qed
qed

text \<open>
  The scenario of the specification: preference Balance with Vebox ineligible and Blt
  and Render eligible selects Blt.
\<close>

theorem CopyEnigneSelect_first_eligible_witness:
  "method_values_distinct demo_platform
   \<and> \<not> force_override_active demo_platform demo_state
   \<and> defined_method demo_platform 2
   \<and> CopyEnigneSelect demo_platform demo_state 2 MCPY_ENGINE_VEBOX
        \<lparr>engineVebox = False, engineBlt = True, engineRender = True, reserved = True\<rparr>
       = (MOS_STATUS_SUCCESS, MCPY_ENGINE_BLT)
   \<and> find (eligible \<lparr>engineVebox = False, engineBlt = True, engineRender = True,
                       reserved = True\<rparr>) (priority_order demo_platform 2)
       = Some MCPY_ENGINE_BLT"
proof -
  have dm: "defined_method demo_platform 2"
    by (simp add: defined_method_def demo_platform_def)
  have some: "engineVebox \<lparr>engineVebox = False, engineBlt = True, engineRender = True,
                 reserved = True\<rparr>
              \<or> engineBlt \<lparr>engineVebox = False, engineBlt = True, engineRender = True,
                   reserved = True\<rparr>
              \<or> engineRender \<lparr>engineVebox = False, engineBlt = True, engineRender = True,
                   reserved = True\<rparr>"
    by simp
  have sel: "snd (CopyEnigneSelect demo_platform demo_state 2 MCPY_ENGINE_VEBOX
               \<lparr>engineVebox = False, engineBlt = True, engineRender = True, reserved = True\<rparr>)
             = MCPY_ENGINE_BLT"
    by (simp add: CopyEnigneSelect_def demo_platform_def demo_state_def)
  from CopyEnigneSelect_first_eligible [OF demo_distinct demo_no_override dm some,
      of MCPY_ENGINE_VEBOX] sel demo_distinct demo_no_override dm
  show ?thesis by (simp add: prod_eq_iff)
qed

section \<open>Capability check\<close>

lemma CapabilityCheck_downgrade_status:
  assumes "CpMode mcpySrc = MCPY_CPMODE_CP" and "CpMode mcpyDst = MCPY_CPMODE_CLEAR"
    and "\<not> m_allowCPBltCopy st"
  shows "fst (CapabilityCheck pf st mcpySrc mcpyDst caps0) =
     (if fst (FeatureSupport pf (OsRes mcpySrc) (OsRes mcpyDst) mcpySrc mcpyDst caps0)
           = MOS_STATUS_SUCCESS
      then MOS_STATUS_INVALID_PARAMETER
      else fst (FeatureSupport pf (OsRes mcpySrc) (OsRes mcpyDst) mcpySrc mcpyDst caps0))"
proof -
  obtain s c where fs: "FeatureSupport pf (OsRes mcpySrc) (OsRes mcpyDst) mcpySrc mcpyDst caps0
      = (s, c)"
    by (cases "FeatureSupport pf (OsRes mcpySrc) (OsRes mcpyDst) mcpySrc mcpyDst caps0")
  show ?thesis unfolding CapabilityCheck_def fs using assms by simp
qed

lemma CapabilityCheck_rules:
  assumes fs: "FeatureSupport pf (OsRes mcpySrc) (OsRes mcpyDst) mcpySrc mcpyDst caps0
             = (MOS_STATUS_SUCCESS, pcaps)"
    and legal: "\<not> protection_downgrade st mcpySrc mcpyDst"
  shows "snd (CapabilityCheck pf st mcpySrc mcpyDst caps0) =
           pcaps\<lparr>engineVebox := engineVebox pcaps
                      \<and> IsVeboxCopySupported pf (OsRes mcpySrc) (OsRes mcpyDst)
                      \<and> \<not> bAuxSuface mcpySrc,
                  engineRender := engineRender pcaps
                      \<and> RenderFormatSupportCheck pf (OsRes mcpySrc) (OsRes mcpyDst)
                      \<and> \<not> bAuxSuface mcpySrc\<rparr>"
    and "fst (CapabilityCheck pf st mcpySrc mcpyDst caps0) =
           (if \<not> engineVebox (snd (CapabilityCheck pf st mcpySrc mcpyDst caps0))
               \<and> \<not> engineBlt (snd (CapabilityCheck pf st mcpySrc mcpyDst caps0))
               \<and> \<not> engineRender (snd (CapabilityCheck pf st mcpySrc mcpyDst caps0))
            then MOS_STATUS_INVALID_PARAMETER else MOS_STATUS_SUCCESS)"
proof -
  show "snd (CapabilityCheck pf st mcpySrc mcpyDst caps0) =
           pcaps\<lparr>engineVebox := engineVebox pcaps
                      \<and> IsVeboxCopySupported pf (OsRes mcpySrc) (OsRes mcpyDst)
                      \<and> \<not> bAuxSuface mcpySrc,
                  engineRender := engineRender pcaps
                      \<and> RenderFormatSupportCheck pf (OsRes mcpySrc) (OsRes mcpyDst)
                      \<and> \<not> bAuxSuface mcpySrc\<rparr>"
    unfolding CapabilityCheck_def fs protection_downgrade_def [symmetric]
    using legal by (auto simp: Let_def)
  show "fst (CapabilityCheck pf st mcpySrc mcpyDst caps0) =
           (if \<not> engineVebox (snd (CapabilityCheck pf st mcpySrc mcpyDst caps0))
               \<and> \<not> engineBlt (snd (CapabilityCheck pf st mcpySrc mcpyDst caps0))
               \<and> \<not> engineRender (snd (CapabilityCheck pf st mcpySrc mcpyDst caps0))
            then MOS_STATUS_INVALID_PARAMETER else MOS_STATUS_SUCCESS)"
    unfolding CapabilityCheck_def fs protection_downgrade_def [symmetric]
    using legal by (simp add: Let_def)
qed

lemma CapabilityCheck_illegal:
  assumes fs: "FeatureSupport pf (OsRes mcpySrc) (OsRes mcpyDst) mcpySrc mcpyDst caps0
             = (MOS_STATUS_SUCCESS, pcaps)"
    and illegal: "protection_downgrade st mcpySrc mcpyDst"
  shows "CapabilityCheck pf st mcpySrc mcpyDst caps0 = (MOS_STATUS_INVALID_PARAMETER, pcaps)"
  unfolding CapabilityCheck_def fs protection_downgrade_def [symmetric]
  using illegal by simp

lemma CapabilityCheck_predicate_failure:
  assumes "fst (FeatureSupport pf (OsRes mcpySrc) (OsRes mcpyDst) mcpySrc mcpyDst caps0)
             \<noteq> MOS_STATUS_SUCCESS"
  shows "CapabilityCheck pf st mcpySrc mcpyDst caps0
           = FeatureSupport pf (OsRes mcpySrc) (OsRes mcpyDst) mcpySrc mcpyDst caps0"
proof -
  obtain s c where fs: "FeatureSupport pf (OsRes mcpySrc) (OsRes mcpyDst) mcpySrc mcpyDst caps0
      = (s, c)"
    by (cases "FeatureSupport pf (OsRes mcpySrc) (OsRes mcpyDst) mcpySrc mcpyDst caps0")
  show ?thesis using assms unfolding CapabilityCheck_def fs by simp
qed

text \<open>
  C5, as the code has it. With a protected source, a clear destination and a false allow
  flag, \<open>CapabilityCheck\<close> never succeeds: when the platform predicate returned success
  it returns the invalid-parameter status, whatever the format, tiling and compression of
  the surfaces and whichever engines the predicate enabled; when the predicate failed it
  returns the predicate's own status, since that is checked before the legality rule.
\<close>

theorem CapabilityCheck_protection_downgrade:
  assumes "CpMode mcpySrc = MCPY_CPMODE_CP" and "CpMode mcpyDst = MCPY_CPMODE_CLEAR"
    and "\<not> m_allowCPBltCopy st"
  shows "(fst (FeatureSupport pf (OsRes mcpySrc) (OsRes mcpyDst) mcpySrc mcpyDst caps0)
            = MOS_STATUS_SUCCESS \<longrightarrow>
          fst (CapabilityCheck pf st mcpySrc mcpyDst caps0) = MOS_STATUS_INVALID_PARAMETER)
         \<and> (fst (FeatureSupport pf (OsRes mcpySrc) (OsRes mcpyDst) mcpySrc mcpyDst caps0)
              \<noteq> MOS_STATUS_SUCCESS \<longrightarrow>
            fst (CapabilityCheck pf st mcpySrc mcpyDst caps0)
              = fst (FeatureSupport pf (OsRes mcpySrc) (OsRes mcpyDst) mcpySrc mcpyDst caps0))
         \<and> fst (CapabilityCheck pf st mcpySrc mcpyDst caps0) \<noteq> MOS_STATUS_SUCCESS"
  using CapabilityCheck_downgrade_status [OF assms, of pf caps0] by simp

theorem CapabilityCheck_protection_downgrade_witness:
  "CpMode (protected_params 1) = MCPY_CPMODE_CP
   \<and> CpMode (demo_params 2) = MCPY_CPMODE_CLEAR
   \<and> \<not> m_allowCPBltCopy demo_state
   \<and> fst (FeatureSupport demo_platform (OsRes (protected_params 1)) (OsRes (demo_params 2))
            (protected_params 1) (demo_params 2) initial_caps) = MOS_STATUS_SUCCESS
   \<and> fst (CapabilityCheck demo_platform demo_state (protected_params 1) (demo_params 2)
            initial_caps) = MOS_STATUS_INVALID_PARAMETER"
proof -
  have h1: "fst (FeatureSupport demo_platform (OsRes (protected_params 1))
                   (OsRes (demo_params 2)) (protected_params 1) (demo_params 2) initial_caps)
            = MOS_STATUS_SUCCESS"
    by (simp add: demo_platform_def)
  have h2: "CpMode (protected_params 1) = MCPY_CPMODE_CP"
    by (simp add: protected_params_def)
  have h3: "CpMode (demo_params 2) = MCPY_CPMODE_CLEAR"
    by (simp add: demo_params_def)
  have h4: "\<not> m_allowCPBltCopy demo_state"
    by (simp add: demo_state_def)
  from CapabilityCheck_protection_downgrade [OF h2 h3 h4, of demo_platform initial_caps]
    h1 h2 h3 h4
  show ?thesis by simp
qed

text \<open>
  C5, as the claim has it, fails: when the platform predicate fails with a status of its
  own, that status is what the call returns, not invalid-parameter.
\<close>

theorem CapabilityCheck_downgrade_after_failed_predicate:
  "CpMode (protected_params 1) = MCPY_CPMODE_CP
   \<and> CpMode (demo_params 2) = MCPY_CPMODE_CLEAR
   \<and> \<not> m_allowCPBltCopy demo_state
   \<and> fst (CapabilityCheck failing_predicate_platform demo_state (protected_params 1)
            (demo_params 2) initial_caps) = MOS_STATUS_OTHER 3"
  by (simp add: CapabilityCheck_def demo_defs)

lemma SurfaceCopy_after_queries:
  assumes "queries_succeed pf src dst"
  shows "SurfaceCopy pf st src dst m =
     (if fst (CapabilityCheck pf st (state_params pf src) (state_params pf dst) initial_caps)
           \<noteq> MOS_STATUS_SUCCESS
      then (fst (CapabilityCheck pf st (state_params pf src) (state_params pf dst)
                   initial_caps), st)
      else TaskDispatch pf st (state_params pf src) (state_params pf dst)
             (snd (CopyEnigneSelect pf st m MCPY_ENGINE_BLT
                (snd (CapabilityCheck pf st (state_params pf src) (state_params pf dst)
                        initial_caps)))))"
proof -
  obtain s c where cc: "CapabilityCheck pf st (state_params pf src) (state_params pf dst)
      \<lparr>engineVebox = True, engineBlt = True, engineRender = True, reserved = True\<rparr> = (s, c)"
    by (cases "CapabilityCheck pf st (state_params pf src) (state_params pf dst)
      \<lparr>engineVebox = True, engineBlt = True, engineRender = True, reserved = True\<rparr>")
  from assms show ?thesis
    by (simp add: SurfaceCopy_def queries_succeed_def PreCheckCpCopy_def initial_caps_def
        Let_def cc)
qed

text \<open>
  C6. \<open>CapabilityCheck\<close> never returns success with the three eligibility flags all
  false: once the eligibility rules have run on the result of a successful platform
  predicate, three false flags give the invalid-parameter status; and \<open>SurfaceCopy\<close>
  returns a failed capability check at once, so that engine selection is never reached
  with an all-false capability set.
\<close>

theorem CapabilityCheck_some_engine:
  "(fst (CapabilityCheck pf st mcpySrc mcpyDst caps0) = MOS_STATUS_SUCCESS \<longrightarrow>
      engineVebox (snd (CapabilityCheck pf st mcpySrc mcpyDst caps0))
      \<or> engineBlt (snd (CapabilityCheck pf st mcpySrc mcpyDst caps0))
      \<or> engineRender (snd (CapabilityCheck pf st mcpySrc mcpyDst caps0)))
   \<and> (fst (FeatureSupport pf (OsRes mcpySrc) (OsRes mcpyDst) mcpySrc mcpyDst caps0)
          = MOS_STATUS_SUCCESS
        \<and> \<not> engineVebox (snd (CapabilityCheck pf st mcpySrc mcpyDst caps0))
        \<and> \<not> engineBlt (snd (CapabilityCheck pf st mcpySrc mcpyDst caps0))
        \<and> \<not> engineRender (snd (CapabilityCheck pf st mcpySrc mcpyDst caps0)) \<longrightarrow>
      fst (CapabilityCheck pf st mcpySrc mcpyDst caps0) = MOS_STATUS_INVALID_PARAMETER)
   \<and> (queries_succeed pf src dst
        \<and> fst (CapabilityCheck pf st (state_params pf src) (state_params pf dst) initial_caps)
            \<noteq> MOS_STATUS_SUCCESS \<longrightarrow>
      SurfaceCopy pf st src dst m =
        (fst (CapabilityCheck pf st (state_params pf src) (state_params pf dst) initial_caps),
         st))"
proof -
  obtain s pcaps where fs:
    "FeatureSupport pf (OsRes mcpySrc) (OsRes mcpyDst) mcpySrc mcpyDst caps0 = (s, pcaps)"
    by (cases "FeatureSupport pf (OsRes mcpySrc) (OsRes mcpyDst) mcpySrc mcpyDst caps0")
  have a: "fst (CapabilityCheck pf st mcpySrc mcpyDst caps0) = MOS_STATUS_SUCCESS \<longrightarrow>
      engineVebox (snd (CapabilityCheck pf st mcpySrc mcpyDst caps0))
      \<or> engineBlt (snd (CapabilityCheck pf st mcpySrc mcpyDst caps0))
      \<or> engineRender (snd (CapabilityCheck pf st mcpySrc mcpyDst caps0))"
  proof (cases "s = MOS_STATUS_SUCCESS")
    case False
    then show ?thesis using CapabilityCheck_predicate_failure [of pf mcpySrc mcpyDst caps0 st]
      by (simp add: fs)
  next
    case True
    show ?thesis
    proof (cases "protection_downgrade st mcpySrc mcpyDst")
      case True
      with \<open>s = MOS_STATUS_SUCCESS\<close> fs show ?thesis
        by (simp add: CapabilityCheck_illegal)
    next
      case False
      with \<open>s = MOS_STATUS_SUCCESS\<close> fs
      have "fst (CapabilityCheck pf st mcpySrc mcpyDst caps0) =
           (if \<not> engineVebox (snd (CapabilityCheck pf st mcpySrc mcpyDst caps0))
               \<and> \<not> engineBlt (snd (CapabilityCheck pf st mcpySrc mcpyDst caps0))
               \<and> \<not> engineRender (snd (CapabilityCheck pf st mcpySrc mcpyDst caps0))
            then MOS_STATUS_INVALID_PARAMETER else MOS_STATUS_SUCCESS)"
        by (intro CapabilityCheck_rules(2)) simp_all
      then show ?thesis by (metis MOS_STATUS.distinct(1))
    qed
  qed
  have b: "fst (FeatureSupport pf (OsRes mcpySrc) (OsRes mcpyDst) mcpySrc mcpyDst caps0)
          = MOS_STATUS_SUCCESS
        \<and> \<not> engineVebox (snd (CapabilityCheck pf st mcpySrc mcpyDst caps0))
        \<and> \<not> engineBlt (snd (CapabilityCheck pf st mcpySrc mcpyDst caps0))
        \<and> \<not> engineRender (snd (CapabilityCheck pf st mcpySrc mcpyDst caps0)) \<longrightarrow>
      fst (CapabilityCheck pf st mcpySrc mcpyDst caps0) = MOS_STATUS_INVALID_PARAMETER"
  proof (cases "protection_downgrade st mcpySrc mcpyDst")
    case True
    then show ?thesis using fs by (auto simp: CapabilityCheck_illegal)
  next
    case False
    show ?thesis
    proof (intro impI, elim conjE)
      assume ok: "fst (FeatureSupport pf (OsRes mcpySrc) (OsRes mcpyDst) mcpySrc mcpyDst caps0)
          = MOS_STATUS_SUCCESS"
        and nf: "\<not> engineVebox (snd (CapabilityCheck pf st mcpySrc mcpyDst caps0))"
          "\<not> engineBlt (snd (CapabilityCheck pf st mcpySrc mcpyDst caps0))"
          "\<not> engineRender (snd (CapabilityCheck pf st mcpySrc mcpyDst caps0))"
      from ok fs have fs': "FeatureSupport pf (OsRes mcpySrc) (OsRes mcpyDst) mcpySrc mcpyDst
          caps0 = (MOS_STATUS_SUCCESS, pcaps)" by simp
      from CapabilityCheck_rules(2) [OF fs' False] nf
      show "fst (CapabilityCheck pf st mcpySrc mcpyDst caps0) = MOS_STATUS_INVALID_PARAMETER"
        by simp
    qed
  qed
  have c: "queries_succeed pf src dst
        \<and> fst (CapabilityCheck pf st (state_params pf src) (state_params pf dst) initial_caps)
            \<noteq> MOS_STATUS_SUCCESS \<longrightarrow>
      SurfaceCopy pf st src dst m =
        (fst (CapabilityCheck pf st (state_params pf src) (state_params pf dst) initial_caps),
         st)"
    by (simp add: SurfaceCopy_after_queries)
  from a b c show ?thesis by blast
qed

theorem CapabilityCheck_some_engine_witness:
  "fst (FeatureSupport demo_platform (OsRes (aux_params 1)) (OsRes (demo_params 2))
          (aux_params 1) (demo_params 2) no_blt_caps) = MOS_STATUS_SUCCESS
   \<and> \<not> engineVebox (snd (CapabilityCheck demo_platform demo_state (aux_params 1)
                            (demo_params 2) no_blt_caps))
   \<and> \<not> engineBlt (snd (CapabilityCheck demo_platform demo_state (aux_params 1)
                          (demo_params 2) no_blt_caps))
   \<and> \<not> engineRender (snd (CapabilityCheck demo_platform demo_state (aux_params 1)
                             (demo_params 2) no_blt_caps))
   \<and> fst (CapabilityCheck demo_platform demo_state (aux_params 1) (demo_params 2)
            no_blt_caps) = MOS_STATUS_INVALID_PARAMETER
   \<and> fst (CapabilityCheck demo_platform demo_state (demo_params 1) (demo_params 2)
            initial_caps) = MOS_STATUS_SUCCESS
   \<and> engineBlt (snd (CapabilityCheck demo_platform demo_state (demo_params 1)
                        (demo_params 2) initial_caps))
   \<and> queries_succeed no_engine_platform 1 2
   \<and> SurfaceCopy no_engine_platform demo_state 1 2 0
       = (MOS_STATUS_INVALID_PARAMETER, demo_state)"
proof -
  have caps: "snd (CapabilityCheck demo_platform demo_state (aux_params 1) (demo_params 2)
                     no_blt_caps)
      = \<lparr>engineVebox = False, engineBlt = False, engineRender = False, reserved = True\<rparr>"
    by (simp add: CapabilityCheck_def demo_defs)
  have ok: "CapabilityCheck demo_platform demo_state (demo_params 1) (demo_params 2)
              initial_caps = (MOS_STATUS_SUCCESS, initial_caps)"
    by (simp add: CapabilityCheck_def demo_defs)
  have q: "queries_succeed no_engine_platform 1 2"
    by (simp add: queries_succeed_def demo_defs)
  have fail: "fst (CapabilityCheck no_engine_platform demo_state
                     (state_params no_engine_platform 1) (state_params no_engine_platform 2)
                     initial_caps) = MOS_STATUS_INVALID_PARAMETER"
    by (simp add: CapabilityCheck_def state_params_def demo_defs)
  from CapabilityCheck_some_engine [where pf = demo_platform and st = demo_state
      and mcpySrc = "aux_params 1" and mcpyDst = "demo_params 2" and ?caps0.0 = no_blt_caps]
    CapabilityCheck_some_engine [where pf = no_engine_platform and st = demo_state
      and src = 1 and dst = 2 and m = 0]
    caps ok q fail
  show ?thesis by (simp add: demo_defs)
qed




section \<open>Task dispatch\<close>

lemma events_log_event [simp]: "events (log_event e st) = events st @ [e]"
  by (simp add: log_event_def)

lemma dumper_log_event [simp]: "m_surfaceDumper (log_event e st) = m_surfaceDumper st"
  by (simp add: log_event_def)

lemma pre_copy_dump_events:
  "\<exists>pre. list_all is_debug_event pre \<and> events (pre_copy_dump pf st mcpySrc) = events st @ pre"
  by (simp add: pre_copy_dump_def Let_def split: option.splits)

lemma pre_copy_dump_dumper [simp]:
  "m_surfaceDumper (pre_copy_dump pf st mcpySrc) = m_surfaceDumper st"
  by (simp add: pre_copy_dump_def Let_def split: option.splits)

lemma post_copy_report_events:
  "\<exists>post. list_all is_debug_event post
     \<and> events (post_copy_report pf st mcpyDst e) = events st @ post"
  by (simp add: post_copy_report_def Let_def split: option.splits)

lemma post_copy_report_dumper:
  "m_surfaceDumper (post_copy_report pf st mcpyDst e) =
     (if DEBUG_OR_RELEASE_INTERNAL pf
      then map_option (\<lambda>d. d\<lparr>m_frameNum := m_frameNum d + 1\<rparr>) (m_surfaceDumper st)
      else m_surfaceDumper st)"
  by (simp add: post_copy_report_def Let_def split: option.splits)

lemma dispatch_epilogue_events:
  "\<exists>post. list_all is_debug_event post
     \<and> events (snd (dispatch_epilogue pf st eStatus mcpyDst e))
         = events st @ MosUnlockMutex # post"
proof -
  obtain post where "list_all is_debug_event post"
    and "events (post_copy_report pf (log_event MosUnlockMutex st) mcpyDst e)
           = events (log_event MosUnlockMutex st) @ post"
    using post_copy_report_events by blast
  then show ?thesis by (auto simp: dispatch_epilogue_def)
qed

text \<open>The two ways out of the switch.\<close>

lemma TaskDispatch_decomp_failure:
  assumes "decomp_fails pf mcpySrc e"
  shows "TaskDispatch pf st mcpySrc mcpyDst e =
     (pfnDecompResource pf (OsRes mcpySrc),
      log_event MosUnlockMutex
        (log_event (DecompResource (OsRes mcpySrc))
           (log_event MosLockMutex (pre_copy_dump pf st mcpySrc))))"
  using assms
  by (auto simp: TaskDispatch_def decomp_fails_def needs_decomp_def Let_def)

lemma TaskDispatch_executor:
  assumes "\<not> decomp_fails pf mcpySrc e"
  shows "TaskDispatch pf st mcpySrc mcpyDst e =
     dispatch_epilogue pf
       (fold log_event (locked_calls pf mcpySrc mcpyDst e)
          (log_event MosLockMutex (pre_copy_dump pf st mcpySrc)))
       (executor_status pf mcpySrc mcpyDst e) mcpyDst e"
  using assms
  by (cases e)
    (auto simp: TaskDispatch_def decomp_fails_def needs_decomp_def Let_def
      locked_calls_def executor_call_def executor_status_def)

lemma events_fold_log_event [simp]: "events (fold log_event es st) = events st @ es"
  by (induction es arbitrary: st) simp_all

lemma dumper_fold_log_event [simp]:
  "m_surfaceDumper (fold log_event es st) = m_surfaceDumper st"
  by (induction es arbitrary: st) simp_all

lemma TaskDispatch_events:
  "\<exists>pre post. list_all is_debug_event pre \<and> list_all is_debug_event post
     \<and> events (snd (TaskDispatch pf st mcpySrc mcpyDst e))
         = events st @ pre @ MosLockMutex # locked_calls pf mcpySrc mcpyDst e
             @ MosUnlockMutex # post"
proof -
  obtain pre where pre: "list_all is_debug_event pre"
    "events (pre_copy_dump pf st mcpySrc) = events st @ pre"
    using pre_copy_dump_events by blast
  show ?thesis
  proof (cases "decomp_fails pf mcpySrc e")
    case True
    then have "locked_calls pf mcpySrc mcpyDst e = [DecompResource (OsRes mcpySrc)]"
      by (simp add: locked_calls_def decomp_fails_def)
    then have "events (snd (TaskDispatch pf st mcpySrc mcpyDst e))
         = events st @ pre @ MosLockMutex # locked_calls pf mcpySrc mcpyDst e
             @ MosUnlockMutex # []"
      by (simp add: TaskDispatch_decomp_failure [OF True] pre(2))
    moreover have "list_all is_debug_event []" by simp
    ultimately show ?thesis using pre(1) by blast
  next
    case False
    obtain post where post: "list_all is_debug_event post"
      "events (snd (TaskDispatch pf st mcpySrc mcpyDst e))
         = events (fold log_event (locked_calls pf mcpySrc mcpyDst e)
                     (log_event MosLockMutex (pre_copy_dump pf st mcpySrc)))
           @ MosUnlockMutex # post"
      unfolding TaskDispatch_executor [OF False] using dispatch_epilogue_events by blast
    from post(2) have "events (snd (TaskDispatch pf st mcpySrc mcpyDst e))
         = events st @ pre @ MosLockMutex # locked_calls pf mcpySrc mcpyDst e
             @ MosUnlockMutex # post"
      by (simp add: pre(2))
    with pre(1) post(1) show ?thesis by blast
  qed
qed

lemma TaskDispatch_status:
  "fst (TaskDispatch pf st mcpySrc mcpyDst e) =
     (if decomp_fails pf mcpySrc e then pfnDecompResource pf (OsRes mcpySrc)
      else executor_status pf mcpySrc mcpyDst e)"
proof (cases "decomp_fails pf mcpySrc e")
  case True
  then show ?thesis by (simp add: TaskDispatch_decomp_failure)
next
  case False
  then show ?thesis by (simp add: TaskDispatch_executor dispatch_epilogue_def)
qed

lemma TaskDispatch_dumper:
  "m_surfaceDumper (snd (TaskDispatch pf st mcpySrc mcpyDst e)) =
     (if DEBUG_OR_RELEASE_INTERNAL pf \<and> \<not> decomp_fails pf mcpySrc e
      then map_option (\<lambda>d. d\<lparr>m_frameNum := m_frameNum d + 1\<rparr>) (m_surfaceDumper st)
      else m_surfaceDumper st)"
proof (cases "decomp_fails pf mcpySrc e")
  case True
  then show ?thesis by (simp add: TaskDispatch_decomp_failure)
next
  case False
  then show ?thesis
    by (simp add: TaskDispatch_executor dispatch_epilogue_def post_copy_report_dumper)
qed

text \<open>Debug events and the calls under the lock, seen by the trace predicates.\<close>

lemma debug_events_quiet:
  assumes "list_all is_debug_event xs"
  shows "count_list xs MosLockMutex = 0" and "count_list xs MosUnlockMutex = 0"
    and "filter is_decomp xs = []"
    and "filter (\<lambda>ev. is_decomp ev \<or> is_executor ev) xs = []"
    and "mutex_run held (xs @ ys) = mutex_run held ys"
  using assms
proof (induction xs)
  case Nil
  { case 1 show ?case by simp }
  { case 2 show ?case by simp }
  { case 3 show ?case by simp }
  { case 4 show ?case by simp }
  { case 5 show ?case by simp }
next
  case (Cons x xs)
  { case 1 then show ?case using Cons.IH(1) by (cases x) simp_all }
  { case 2 then show ?case using Cons.IH(2) by (cases x) simp_all }
  { case 3 then show ?case using Cons.IH(3) by (cases x) simp_all }
  { case 4 then show ?case using Cons.IH(4) by (cases x) simp_all }
  { case 5 then show ?case using Cons.IH(5) by (cases x) simp_all }
qed

lemma locked_calls_quiet:
  "count_list (locked_calls pf mcpySrc mcpyDst e) MosLockMutex = 0"
  "count_list (locked_calls pf mcpySrc mcpyDst e) MosUnlockMutex = 0"
  "mutex_run held (locked_calls pf mcpySrc mcpyDst e @ ys) = mutex_run held ys"
  by (cases e; simp add: locked_calls_def executor_call_def)+

lemma locked_calls_filter:
  "filter (\<lambda>ev. is_decomp ev \<or> is_executor ev) (locked_calls pf mcpySrc mcpyDst e)
     = locked_calls pf mcpySrc mcpyDst e"
  "length (filter is_decomp (locked_calls pf mcpySrc mcpyDst e))
     = (if needs_decomp mcpySrc e then 1 else 0)"
  by (cases e; simp add: locked_calls_def executor_call_def)+

text \<open>
  C3. Every \<open>TaskDispatch\<close> call acquires the dispatch mutex exactly once and releases
  it exactly once, on the decompression-failure path, the executor-failure path and the
  success path alike; replayed from a free mutex, the events of the call never unlock a
  free mutex or lock a held one, and they leave the mutex free whatever status is
  returned.
\<close>

theorem TaskDispatch_lock_once:
  "events (snd (TaskDispatch pf st mcpySrc mcpyDst e))
     = events st @ new_events st (snd (TaskDispatch pf st mcpySrc mcpyDst e))
   \<and> count_list (new_events st (snd (TaskDispatch pf st mcpySrc mcpyDst e))) MosLockMutex = 1
   \<and> count_list (new_events st (snd (TaskDispatch pf st mcpySrc mcpyDst e))) MosUnlockMutex = 1
   \<and> mutex_run False (new_events st (snd (TaskDispatch pf st mcpySrc mcpyDst e))) = Some False"
proof -
  obtain pre post where q: "list_all is_debug_event pre" "list_all is_debug_event post"
    and ev: "events (snd (TaskDispatch pf st mcpySrc mcpyDst e))
         = events st @ pre @ MosLockMutex # locked_calls pf mcpySrc mcpyDst e
             @ MosUnlockMutex # post"
    using TaskDispatch_events by blast
  have ne: "new_events st (snd (TaskDispatch pf st mcpySrc mcpyDst e))
      = pre @ MosLockMutex # locked_calls pf mcpySrc mcpyDst e @ MosUnlockMutex # post"
    by (simp add: new_events_def ev)
  have post_run: "mutex_run False post = Some False"
    using debug_events_quiet(5) [OF q(2), of False "[]"] by simp
  show ?thesis
    by (simp add: ne ev debug_events_quiet [OF q(1)] debug_events_quiet(1-4) [OF q(2)]
        locked_calls_quiet post_run)
qed

theorem TaskDispatch_lock_once_witness:
  "fst (TaskDispatch failing_decomp_platform demo_state (tiled_params 1) (demo_params 2)
          MCPY_ENGINE_BLT) = MOS_STATUS_OTHER 2
   \<and> new_events demo_state
        (snd (TaskDispatch failing_decomp_platform demo_state (tiled_params 1) (demo_params 2)
                MCPY_ENGINE_BLT))
       = [DumpSurfaceToFile 1 ''/tmp/mcpy'' 7, MosLockMutex, DecompResource 1, MosUnlockMutex]
   \<and> mutex_run False
        (new_events demo_state
           (snd (TaskDispatch failing_decomp_platform demo_state (tiled_params 1)
                   (demo_params 2) MCPY_ENGINE_BLT))) = Some False"
proof -
  have tr: "TaskDispatch failing_decomp_platform demo_state (tiled_params 1) (demo_params 2)
              MCPY_ENGINE_BLT
      = (MOS_STATUS_OTHER 2,
         demo_state\<lparr>events := [DumpSurfaceToFile 1 ''/tmp/mcpy'' 7, MosLockMutex,
                                  DecompResource 1, MosUnlockMutex]\<rparr>)"
    by (simp add: run_defs demo_defs)
  have ev0: "events demo_state = []"
    by (simp add: demo_state_def)
  from TaskDispatch_lock_once [of failing_decomp_platform demo_state "tiled_params 1"
      "demo_params 2" MCPY_ENGINE_BLT, unfolded tr]
  show ?thesis unfolding tr by (simp add: new_events_def ev0)
qed

text \<open>
  C4. \<open>TaskDispatch\<close> calls the decompression hook if and only if the engine is Blt,
  the source tile mode is not linear and the source compression mode is not disabled;
  it then calls it exactly once, before the Blt executor (which runs only if the
  decompression succeeded). A Blt dispatch of a linear source and every Vebox or Render
  dispatch make no decompression call: the executor call is the only call under the lock.
\<close>

theorem TaskDispatch_decompression:
  "length (filter is_decomp (new_events st (snd (TaskDispatch pf st mcpySrc mcpyDst e))))
     = (if needs_decomp mcpySrc e then 1 else 0)
   \<and> filter (\<lambda>ev. is_decomp ev \<or> is_executor ev)
        (new_events st (snd (TaskDispatch pf st mcpySrc mcpyDst e)))
     = (if needs_decomp mcpySrc e
        then (if pfnDecompResource pf (OsRes mcpySrc) = MOS_STATUS_SUCCESS
              then [DecompResource (OsRes mcpySrc), CallBltCopy (OsRes mcpySrc) (OsRes mcpyDst)]
              else [DecompResource (OsRes mcpySrc)])
        else [executor_call e (OsRes mcpySrc) (OsRes mcpyDst)])"
proof -
  obtain pre post where q: "list_all is_debug_event pre" "list_all is_debug_event post"
    and ev: "events (snd (TaskDispatch pf st mcpySrc mcpyDst e))
         = events st @ pre @ MosLockMutex # locked_calls pf mcpySrc mcpyDst e
             @ MosUnlockMutex # post"
    using TaskDispatch_events by blast
  have ne: "new_events st (snd (TaskDispatch pf st mcpySrc mcpyDst e))
      = pre @ MosLockMutex # locked_calls pf mcpySrc mcpyDst e @ MosUnlockMutex # post"
    by (simp add: new_events_def ev)
  have a: "length (filter is_decomp (new_events st (snd (TaskDispatch pf st mcpySrc mcpyDst e))))
     = (if needs_decomp mcpySrc e then 1 else 0)"
    by (simp add: ne debug_events_quiet(3) [OF q(1)] debug_events_quiet(3) [OF q(2)]
        locked_calls_filter(2))
  have b: "filter (\<lambda>ev. is_decomp ev \<or> is_executor ev)
        (new_events st (snd (TaskDispatch pf st mcpySrc mcpyDst e)))
      = locked_calls pf mcpySrc mcpyDst e"
    by (simp add: ne debug_events_quiet(4) [OF q(1)] debug_events_quiet(4) [OF q(2)]
        locked_calls_filter(1))
  show ?thesis using a b by (simp add: locked_calls_def)
qed

theorem TaskDispatch_decompression_witness:
  "needs_decomp (tiled_params 1) MCPY_ENGINE_BLT
   \<and> filter (\<lambda>ev. is_decomp ev \<or> is_executor ev)
        (new_events demo_state
           (snd (TaskDispatch demo_platform demo_state (tiled_params 1) (demo_params 2)
                   MCPY_ENGINE_BLT)))
       = [DecompResource 1, CallBltCopy 1 2]
   \<and> filter (\<lambda>ev. is_decomp ev \<or> is_executor ev)
        (new_events demo_state
           (snd (TaskDispatch demo_platform demo_state (demo_params 1) (demo_params 2)
                   MCPY_ENGINE_BLT)))
       = [CallBltCopy 1 2]"
proof -
  have n: "needs_decomp (tiled_params 1) MCPY_ENGINE_BLT"
    by (simp add: needs_decomp_def tiled_params_def)
  have n': "\<not> needs_decomp (demo_params 1) MCPY_ENGINE_BLT"
    by (simp add: needs_decomp_def demo_params_def)
  from TaskDispatch_decompression [of demo_state demo_platform "tiled_params 1"
      "demo_params 2" MCPY_ENGINE_BLT]
    TaskDispatch_decompression [of demo_state demo_platform "demo_params 1"
      "demo_params 2" MCPY_ENGINE_BLT] n n'
  show ?thesis
    by (simp add: executor_call_def demo_platform_def tiled_params_def demo_params_def)
qed

text \<open>
  C8, as the code has it. With a dump collaborator configured, every \<open>TaskDispatch\<close>
  call that gets past the switch advances the frame counter by one, whether the executor
  succeeded or failed; the counter keeps its value only on the early return after a failed
  decompression. In particular a successful call advances it exactly once.
\<close>

theorem TaskDispatch_frame_counter:
  assumes "DEBUG_OR_RELEASE_INTERNAL pf" and "m_surfaceDumper st = Some dumper"
  shows "m_surfaceDumper (snd (TaskDispatch pf st mcpySrc mcpyDst e))
           = Some (dumper\<lparr>m_frameNum :=
                     m_frameNum dumper + (if decomp_fails pf mcpySrc e then 0 else 1)\<rparr>)
         \<and> (fst (TaskDispatch pf st mcpySrc mcpyDst e) = MOS_STATUS_SUCCESS \<longrightarrow>
              m_surfaceDumper (snd (TaskDispatch pf st mcpySrc mcpyDst e))
                = Some (dumper\<lparr>m_frameNum := m_frameNum dumper + 1\<rparr>))"
proof -
  have a: "m_surfaceDumper (snd (TaskDispatch pf st mcpySrc mcpyDst e))
           = Some (dumper\<lparr>m_frameNum :=
                     m_frameNum dumper + (if decomp_fails pf mcpySrc e then 0 else 1)\<rparr>)"
    using assms by (simp add: TaskDispatch_dumper)
  have "decomp_fails pf mcpySrc e \<Longrightarrow>
          fst (TaskDispatch pf st mcpySrc mcpyDst e) \<noteq> MOS_STATUS_SUCCESS"
    by (simp add: TaskDispatch_status decomp_fails_def)
  with a show ?thesis by auto
qed

theorem TaskDispatch_frame_counter_witness:
  "DEBUG_OR_RELEASE_INTERNAL demo_platform
   \<and> m_surfaceDumper demo_state = Some \<lparr>m_frameNum = 7\<rparr>
   \<and> fst (TaskDispatch demo_platform demo_state (demo_params 1) (demo_params 2)
            MCPY_ENGINE_BLT) = MOS_STATUS_SUCCESS
   \<and> m_surfaceDumper (snd (TaskDispatch demo_platform demo_state (demo_params 1)
        (demo_params 2) MCPY_ENGINE_BLT)) = Some \<lparr>m_frameNum = 8\<rparr>
   \<and> decomp_fails failing_decomp_platform (tiled_params 1) MCPY_ENGINE_BLT
   \<and> m_surfaceDumper (snd (TaskDispatch failing_decomp_platform demo_state (tiled_params 1)
        (demo_params 2) MCPY_ENGINE_BLT)) = Some \<lparr>m_frameNum = 7\<rparr>"
proof -
  have d: "DEBUG_OR_RELEASE_INTERNAL demo_platform"
    by (simp add: demo_platform_def)
  have d': "DEBUG_OR_RELEASE_INTERNAL failing_decomp_platform"
    by (simp add: failing_decomp_platform_def demo_platform_def)
  have s: "m_surfaceDumper demo_state = Some \<lparr>m_frameNum = 7\<rparr>"
    by (simp add: demo_state_def)
  have ok: "fst (TaskDispatch demo_platform demo_state (demo_params 1) (demo_params 2)
                   MCPY_ENGINE_BLT) = MOS_STATUS_SUCCESS"
    by (simp add: run_defs demo_defs)
  have nf: "\<not> decomp_fails demo_platform (demo_params 1) MCPY_ENGINE_BLT"
    by (simp add: decomp_fails_def needs_decomp_def demo_params_def)
  have f: "decomp_fails failing_decomp_platform (tiled_params 1) MCPY_ENGINE_BLT"
    by (simp add: decomp_fails_def needs_decomp_def demo_defs)
  from TaskDispatch_frame_counter [OF d s, of "demo_params 1" "demo_params 2" MCPY_ENGINE_BLT]
    TaskDispatch_frame_counter [OF d' s, of "tiled_params 1" "demo_params 2" MCPY_ENGINE_BLT]
    d s ok nf f
  show ?thesis by simp
qed

text \<open>
  C8, as the claim has it, fails: when the Vebox executor fails, the call returns the
  failure status and the frame counter still goes from 7 to 8.
\<close>

theorem TaskDispatch_frame_counter_on_failure:
  "fst (TaskDispatch failing_vebox_platform demo_state (demo_params 1) (demo_params 2)
          MCPY_ENGINE_VEBOX) = MOS_STATUS_OTHER 1
   \<and> m_surfaceDumper demo_state = Some \<lparr>m_frameNum = 7\<rparr>
   \<and> m_surfaceDumper (snd (TaskDispatch failing_vebox_platform demo_state (demo_params 1)
          (demo_params 2) MCPY_ENGINE_VEBOX)) = Some \<lparr>m_frameNum = 8\<rparr>"
  by (simp add: run_defs demo_defs)

section \<open>The entry points\<close>

text \<open>
  C10. A preference outside the four defined values, with no force override active,
  makes \<open>CopyEnigneSelect\<close> return success and leave the engine as it was passed;
  \<open>SurfaceCopy\<close> passes Blt, so once the queries and the capability check have
  succeeded the copy is dispatched to the Blt engine.
\<close>

theorem undefined_method_dispatches_Blt:
  assumes und: "\<not> defined_method pf m" and nov: "\<not> force_override_active pf st"
  shows "CopyEnigneSelect pf st m e0 caps = (MOS_STATUS_SUCCESS, e0)
         \<and> (queries_succeed pf src dst
              \<and> fst (CapabilityCheck pf st (state_params pf src) (state_params pf dst)
                       initial_caps) = MOS_STATUS_SUCCESS \<longrightarrow>
             SurfaceCopy pf st src dst m
               = TaskDispatch pf st (state_params pf src) (state_params pf dst)
                   MCPY_ENGINE_BLT)"
proof -
  from und have sel: "\<And>e0 caps. CopyEnigneSelect pf st m e0 caps = (MOS_STATUS_SUCCESS, e0)"
    by (simp add: select_no_override [OF nov] defined_method_def)
  then show ?thesis by (simp add: SurfaceCopy_after_queries)
qed

theorem undefined_method_dispatches_Blt_witness:
  "\<not> defined_method demo_platform 9
   \<and> \<not> force_override_active demo_platform demo_state
   \<and> CopyEnigneSelect demo_platform demo_state 9 MCPY_ENGINE_VEBOX initial_caps
       = (MOS_STATUS_SUCCESS, MCPY_ENGINE_VEBOX)
   \<and> queries_succeed demo_platform 1 2
   \<and> SurfaceCopy demo_platform demo_state 1 2 9
       = TaskDispatch demo_platform demo_state (state_params demo_platform 1)
           (state_params demo_platform 2) MCPY_ENGINE_BLT
   \<and> filter is_executor
        (new_events demo_state (snd (SurfaceCopy demo_platform demo_state 1 2 9)))
       = [CallBltCopy 1 2]"
proof -
  have und: "\<not> defined_method demo_platform 9"
    by (simp add: defined_method_def demo_platform_def)
  have q: "queries_succeed demo_platform 1 2"
    by (simp add: queries_succeed_def demo_platform_def)
  have cap: "fst (CapabilityCheck demo_platform demo_state (state_params demo_platform 1)
                    (state_params demo_platform 2) initial_caps) = MOS_STATUS_SUCCESS"
    by (simp add: CapabilityCheck_def state_params_def demo_defs)
  have run: "filter is_executor
        (new_events demo_state
           (snd (TaskDispatch demo_platform demo_state (state_params demo_platform 1)
                   (state_params demo_platform 2) MCPY_ENGINE_BLT)))
       = [CallBltCopy 1 2]"
    by (simp add: state_params_def run_defs demo_defs)
  from undefined_method_dispatches_Blt [OF und demo_no_override,
      of MCPY_ENGINE_VEBOX initial_caps 1 2] und demo_no_override q cap run
  show ?thesis by simp
qed

text \<open>
  C1 at the debug bypass. With the force mode set to 4, \<open>CopyEnigneSelect\<close> returns
  the invalid-parameter status, yet \<open>SurfaceCopy\<close> goes on: it takes the lock, runs the
  Render executor the switch had chosen and returns that executor's success.
\<close>

theorem SurfaceCopy_dispatches_on_bypass:
  "fst (CopyEnigneSelect demo_platform bypass_state 0 MCPY_ENGINE_BLT initial_caps)
     = MOS_STATUS_INVALID_PARAMETER
   \<and> fst (SurfaceCopy demo_platform bypass_state 1 2 0) = MOS_STATUS_SUCCESS
   \<and> new_events bypass_state (snd (SurfaceCopy demo_platform bypass_state 1 2 0))
       = [DumpSurfaceToFile 1 ''/tmp/mcpy'' 7, MosLockMutex, CallRenderCopy 1 2,
          MosUnlockMutex, ReportUserSetting ''Render'', DumpSurfaceToFile 2 ''/tmp/mcpy'' 7]"
  by (simp add: SurfaceCopy_def state_params_def PreCheckCpCopy_def CapabilityCheck_def
      CopyEnigneSelect_def run_defs demo_defs)

text \<open>
  C9, as the code has it. At the base layer \<open>AuxCopy\<close> returns the invalid-handle
  status for every input and leaves the instance as it was.
\<close>

theorem AuxCopy_invalid_handle: "AuxCopy st src dst = (MOS_STATUS_INVALID_HANDLE, st)"
  by (simp add: AuxCopy_def)

text \<open>
  C9, as the claim has it, fails: the status returned is the generic invalid-handle one.
\<close>

theorem AuxCopy_status_is_invalid_handle:
  "fst (AuxCopy demo_state 1 2) = MOS_STATUS_INVALID_HANDLE"
  by (simp add: AuxCopy_def)

end
